theory Spec2Isabelle
  imports Complex_Main "HOL-Library.AList"
begin

section \<open>Python values\<close>

text \<open>
  The two steps are Python functions over dynamically typed values: the event payload, the
  parsed completion response and the persisted Inquiry are all dicts of JSON-like values.
  A float is carried as the rational number it denotes (the steps only pass floats on and
  test them for zero). A dict is an association list in insertion order; keys are strings.
\<close>

datatype pyval =
    PNone
  | PBool bool
  | PInt int
  | PFloat rat
  | PStr string
  | PList "pyval list"
  | PDict "(string \<times> pyval) list"

type_synonym dict = "(string \<times> pyval) list"

text \<open>Python truthiness, as used by \<open>if x\<close>, \<open>not x\<close> and \<open>x or y\<close>.\<close>

fun truthy :: "pyval \<Rightarrow> bool" where
  "truthy PNone = False"
| "truthy (PBool b) = b"
| "truthy (PInt n) = (n \<noteq> 0)"
| "truthy (PFloat r) = (r \<noteq> 0)"
| "truthy (PStr s) = (s \<noteq> [])"
| "truthy (PList xs) = (xs \<noteq> [])"
| "truthy (PDict d) = (d \<noteq> [])"

definition py_or :: "pyval \<Rightarrow> pyval \<Rightarrow> pyval" where
  \<comment> \<open>\<open>a or b\<close>\<close>
  "py_or a b = (if truthy a then a else b)"

fun type_name :: "pyval \<Rightarrow> string" where
  "type_name PNone = ''NoneType''"
| "type_name (PBool b) = ''bool''"
| "type_name (PInt n) = ''int''"
| "type_name (PFloat r) = ''float''"
| "type_name (PStr s) = ''str''"
| "type_name (PList xs) = ''list''"
| "type_name (PDict d) = ''dict''"

definition dget :: "dict \<Rightarrow> string \<Rightarrow> pyval" where
  \<comment> \<open>\<open>d.get(k)\<close>: the value, or None when the key is absent\<close>
  "dget d k = (case map_of d k of None \<Rightarrow> PNone | Some v \<Rightarrow> v)"

definition dget_default :: "dict \<Rightarrow> string \<Rightarrow> pyval \<Rightarrow> pyval" where
  \<comment> \<open>\<open>d.get(k, default)\<close>\<close>
  "dget_default d k dflt = (case map_of d k of None \<Rightarrow> dflt | Some v \<Rightarrow> v)"

definition setitem :: "string \<Rightarrow> pyval \<Rightarrow> dict \<Rightarrow> dict" where
  \<comment> \<open>\<open>d[k] = v\<close>: replaces the value in place, or appends a new key at the end\<close>
  "setitem k v d = AList.update k v d"

section \<open>The step context\<close>

text \<open>
  Each handler receives a \<open>context\<close> with a logger, an \<open>emit\<close> operation and a keyed state
  store. The model threads a record through the handler: the log lines written, the events
  emitted, the completion requests sent, and the store, a map from (collection, key) to
  the record (a dict) stored there.

  A log line is its level and the text of its format string as the source has it, not the
  rendered message; the emoji some lines start with are left out, and a long interpolated
  expression is written \<open>{...}\<close>. A completion request names its system prompt (the two
  prompts are string constants of the source) and carries the user message as the parts
  of its format string.
\<close>

datatype level = Info | Warn | Error

record event =
  topic :: string
  data :: dict

datatype prompt = ClassifierPrompt | ExtractionPrompt

datatype frag = Lit string | Val pyval

record request =
  req_model :: string
  req_system :: prompt
  req_user :: "frag list"
  req_temperature :: rat

type_synonym store = "string \<times> pyval \<Rightarrow> dict option"

record ctx =
  logs :: "(level \<times> string) list"
  emitted :: "event list"
  requests :: "request list"
  store :: store

definition ctx_init :: "store \<Rightarrow> ctx" where
  "ctx_init st = \<lparr>logs = [], emitted = [], requests = [], store = st\<rparr>"

definition log :: "level \<Rightarrow> string \<Rightarrow> ctx \<Rightarrow> ctx" where
  "log l m c = c\<lparr>logs := logs c @ [(l, m)]\<rparr>"

definition emit :: "event \<Rightarrow> ctx \<Rightarrow> ctx" where
  "emit ev c = c\<lparr>emitted := emitted c @ [ev]\<rparr>"

definition state_get :: "string \<Rightarrow> pyval \<Rightarrow> ctx \<Rightarrow> dict option" where
  \<comment> \<open>\<open>context.state.get(group, key)\<close>: None when nothing is stored\<close>
  "state_get g k c = store c (g, k)"

definition state_set :: "string \<Rightarrow> pyval \<Rightarrow> dict \<Rightarrow> ctx \<Rightarrow> ctx" where
  "state_set g k v c = c\<lparr>store := (store c)((g, k) \<mapsto> v)\<rparr>"

section \<open>ExtractInquiry: the failure routine\<close>

definition load_or_stub :: "pyval \<Rightarrow> ctx \<Rightarrow> dict" where
  \<comment> \<open>\<open>state.get("inquiries", inquiry_id) or {"id": inquiry_id}\<close>: a missing record and an
      empty one are both falsy\<close>
  "load_or_stub inquiry_id c =
     (case state_get ''inquiries'' inquiry_id c of
        None \<Rightarrow> [(''id'', inquiry_id)]
      | Some r \<Rightarrow> if r \<noteq> [] then r else [(''id'', inquiry_id)])"

definition mark_as_failed :: "pyval \<Rightarrow> string \<Rightarrow> ctx \<Rightarrow> ctx" where
  "mark_as_failed inquiry_id error_msg c =
     (let inquiry = load_or_stub inquiry_id c;
          inquiry = setitem ''status'' (PStr ''extraction_failed'') inquiry;
          inquiry = setitem ''error'' (PStr error_msg) inquiry
      in state_set ''inquiries'' inquiry_id inquiry c)"

section \<open>Exceptions and the operations that can raise\<close>

text \<open>
  An exception is its type name and its message (\<open>str(e)\<close>). The messages of the
  interpreter's own errors are those of CPython 3.
\<close>

datatype exn = Exn string string

fun exn_type :: "exn \<Rightarrow> string" where
  "exn_type (Exn t m) = t"

fun exn_msg :: "exn \<Rightarrow> string" where
  \<comment> \<open>\<open>str(e)\<close>\<close>
  "exn_msg (Exn t m) = m"

definition quoted :: "string \<Rightarrow> string" where
  "quoted s = CHR 0x27 # s @ [CHR 0x27]"

function show_nat :: "nat \<Rightarrow> string" where
  "show_nat n =
     (if n < 10 then [char_of (48 + n)]
      else show_nat (n div 10) @ [char_of (48 + n mod 10)])"
  by pat_completeness auto
termination
  by (relation "measure id") auto

definition sbind :: "exn + 'a \<Rightarrow> ('a \<Rightarrow> exn + 'b) \<Rightarrow> exn + 'b" where
  "sbind r f = (case r of Inl e \<Rightarrow> Inl e | Inr x \<Rightarrow> f x)"

definition py_get_default :: "pyval \<Rightarrow> string \<Rightarrow> pyval \<Rightarrow> exn + pyval" where
  \<comment> \<open>\<open>v.get(k, default)\<close> on a value of any type: only a dict has \<open>get\<close>\<close>
  "py_get_default v k dflt =
     (case v of
        PDict d \<Rightarrow> Inr (dget_default d k dflt)
      | _ \<Rightarrow> Inl (Exn ''AttributeError''
                (quoted (type_name v) @ '' object has no attribute '' @ quoted ''get'')))"

definition py_get :: "pyval \<Rightarrow> string \<Rightarrow> exn + pyval" where
  \<comment> \<open>\<open>v.get(k)\<close>\<close>
  "py_get v k = py_get_default v k PNone"

definition py_slice100 :: "pyval \<Rightarrow> exn + pyval" where
  \<comment> \<open>\<open>v[:100]\<close>: strings and lists can be sliced; a dict rejects the slice as a key (the
      message is that of CPython up to 3.11); nothing else is subscriptable\<close>
  "py_slice100 v =
     (case v of
        PStr s \<Rightarrow> Inr (PStr (take 100 s))
      | PList xs \<Rightarrow> Inr (PList (take 100 xs))
      | PDict d \<Rightarrow> Inl (Exn ''TypeError'' (''unhashable type: '' @ quoted ''slice''))
      | _ \<Rightarrow> Inl (Exn ''TypeError'' (quoted (type_name v) @ '' object is not subscriptable'')))"

definition py_len :: "pyval \<Rightarrow> exn + nat" where
  \<comment> \<open>\<open>len(v)\<close>\<close>
  "py_len v =
     (case v of
        PStr s \<Rightarrow> Inr (length s)
      | PList xs \<Rightarrow> Inr (length xs)
      | PDict d \<Rightarrow> Inr (length d)
      | _ \<Rightarrow> Inl (Exn ''TypeError'' (''object of type '' @ quoted (type_name v) @ '' has no len()'')))"

definition float_overflow :: "int \<Rightarrow> bool" where
  \<comment> \<open>\<open>float(n)\<close> raises OverflowError: \<open>n\<close> rounds (to nearest, ties to even) beyond the
      largest double, \<open>2^1024 - 2^971\<close>\<close>
  "float_overflow n = (\<bar>n\<bar> \<ge> 2 ^ 1024 - 2 ^ 970)"

definition fmt_percent :: "pyval \<Rightarrow> exn + unit" where
  \<comment> \<open>\<open>f"{v:.2%}"\<close>: only numbers (bool included) take the format, an int being converted
      to a float first; the rendered text is not modelled\<close>
  "fmt_percent v =
     (case v of
        PBool b \<Rightarrow> Inr ()
      | PInt n \<Rightarrow> if float_overflow n
                  then Inl (Exn ''OverflowError'' ''int too large to convert to float'')
                  else Inr ()
      | PFloat r \<Rightarrow> Inr ()
      | PStr s \<Rightarrow> Inl (Exn ''ValueError''
          (''Unknown format code '' @ quoted ''%'' @ '' for object of type '' @ quoted ''str''))
      | _ \<Rightarrow> Inl (Exn ''TypeError''
          (''unsupported format string passed to '' @ type_name v @ ''.__format__'')))"

fun first_non_str :: "nat \<Rightarrow> pyval list \<Rightarrow> (nat \<times> pyval) option" where
  "first_non_str i [] = None"
| "first_non_str i (PStr s # xs) = first_non_str (Suc i) xs"
| "first_non_str i (x # xs) = Some (i, x)"

definition py_join :: "pyval \<Rightarrow> exn + unit" where
  \<comment> \<open>\<open>', '.join(v)\<close>: a string, a dict (its keys are strings) and a list of strings can
      be joined; the rendered text is not modelled\<close>
  "py_join v =
     (case v of
        PStr s \<Rightarrow> Inr ()
      | PDict d \<Rightarrow> Inr ()
      | PList xs \<Rightarrow>
          (case first_non_str 0 xs of
             None \<Rightarrow> Inr ()
           | Some (i, x) \<Rightarrow> Inl (Exn ''TypeError''
               (''sequence item '' @ show_nat i @ '': expected str instance, ''
                  @ type_name x @ '' found'')))
      | _ \<Rightarrow> Inl (Exn ''TypeError'' ''can only join an iterable''))"

section \<open>The collaborators\<close>

text \<open>
  The completion client and the JSON decoder are libraries outside the repository. A run
  is parameterised by what they do: whether constructing the client raises, what
  \<open>chat.completions.create(...).choices[0].message.content\<close> gives for a request (an
  exception or the content), what \<open>json.loads\<close> gives for a text (the message of its
  JSONDecodeError, or the parsed value), and what \<open>datetime.now().isoformat()\<close> returns.
\<close>

record env =
  groq_init :: "exn option"
  create :: "request \<Rightarrow> exn + string"
  loads :: "string \<Rightarrow> string + pyval"
  now_iso :: string

definition andthen :: "exn + 'a \<Rightarrow> ('a \<Rightarrow> ctx \<Rightarrow> exn option \<times> ctx) \<Rightarrow> ctx \<Rightarrow> exn option \<times> ctx" where
  \<comment> \<open>evaluate an expression that may raise, then go on; a handler or block returns the
      exception it raised, if any, and the context as it was left\<close>
  "andthen r f c = (case r of Inl e \<Rightarrow> (Some e, c) | Inr x \<Rightarrow> f x c)"

definition send :: "request \<Rightarrow> ctx \<Rightarrow> ctx" where
  "send rq c = c\<lparr>requests := requests c @ [rq]\<rparr>"

definition rule80 :: "char \<Rightarrow> string" where
  \<comment> \<open>\<open>"=" * 80\<close>\<close>
  "rule80 ch = replicate 80 ch"

definition llama_model :: string where
  "llama_model = ''meta-llama/llama-4-scout-17b-16e-instruct''"
section \<open>ExtractInquiry: the handler\<close>

definition extract_request :: "pyval \<Rightarrow> request" where
  "extract_request body =
     \<lparr>req_model = llama_model, req_system = ExtractionPrompt,
      req_user = [Val body], req_temperature = 3 / 10\<rparr>"

definition budget_of :: "pyval \<Rightarrow> exn + pyval" where
  \<comment> \<open>\<open>extracted.get('campaign', {}).get('budget', {})\<close>\<close>
  "budget_of extracted =
     sbind (py_get_default extracted ''campaign'' (PDict []))
       (\<lambda>cm. py_get_default cm ''budget'' (PDict []))"

definition eval_log ::
  "exn + 'a \<Rightarrow> string \<Rightarrow> (ctx \<Rightarrow> exn option \<times> ctx) \<Rightarrow> ctx \<Rightarrow> exn option \<times> ctx" where
  \<comment> \<open>a log line whose format string evaluates an expression that may raise: the
      expression is evaluated first, then the line is written\<close>
  "eval_log r msg k = andthen r (\<lambda>_ c. k (log Info msg c))"

definition log_extracted :: "pyval \<Rightarrow> ctx \<Rightarrow> exn option \<times> ctx" where
  \<comment> \<open>the log lines after \<open>json.loads\<close> succeeded (lines 120 to 129)\<close>
  "log_extracted extracted =
     eval_log (sbind (py_get_default extracted ''brand'' (PDict []))
                 (\<lambda>b. py_get_default b ''contactPerson'' (PStr ''N/A'')))
       ''Parsed Contact Person: {...}'' (
     eval_log (sbind (py_get_default extracted ''brand'' (PDict []))
                 (\<lambda>b. py_get_default b ''email'' (PStr ''N/A'')))
       ''Parsed Email: {...}'' (
     eval_log (sbind (sbind (py_get_default extracted ''campaign'' (PDict []))
                 (\<lambda>cm. py_get_default cm ''deliverables'' (PList []))) py_len)
       ''Deliverables Count: {...}'' (
     eval_log (sbind (py_get_default extracted ''campaign'' (PDict []))
                 (\<lambda>cm. py_get_default cm ''timeline'' (PStr ''N/A'')))
       ''Timeline: {...}'' (
     eval_log (sbind (budget_of extracted)
                 (\<lambda>b. py_get_default b ''mentioned'' (PBool False)))
       ''Budget Mentioned: {...}'' (
     andthen (sbind (budget_of extracted) (\<lambda>b. py_get b ''mentioned'')) (\<lambda>mentioned.
       (if truthy mentioned
        then eval_log (sbind (budget_of extracted)
                         (\<lambda>b. py_get_default b ''amount'' (PStr ''N/A'')))
               ''Budget Amount: {...}''
        else (\<lambda>k. k)) (
     eval_log (py_get_default extracted ''urgency'' (PStr ''N/A''))
       ''Urgency: {...}'' (\<lambda>c.
     (None, log Info ''Successfully extracted and parsed data for {inquiry_id}''
              (log Info (rule80 CHR ''='') c))))))))))"

definition updated_inquiry :: "env \<Rightarrow> pyval \<Rightarrow> pyval \<Rightarrow> dict \<Rightarrow> dict" where
  \<comment> \<open>lines 146 to 152, on the loaded record or the stub\<close>
  "updated_inquiry env extracted sender inquiry =
     (let inquiry = setitem ''status'' (PStr ''extracted'') inquiry;
          inquiry = setitem ''extractedData'' extracted inquiry;
          inquiry = setitem ''extractedAt'' (PStr (now_iso env)) inquiry
      in if truthy sender \<and> \<not> truthy (dget inquiry ''sender'')
         then setitem ''sender'' sender inquiry else inquiry)"

definition extracted_event :: "pyval \<Rightarrow> pyval \<Rightarrow> pyval \<Rightarrow> pyval \<Rightarrow> pyval \<Rightarrow> dict \<Rightarrow> event" where
  "extracted_event inquiry_id source thread_key extracted sender inquiry =
     \<lparr>topic = ''inquiry.extracted'',
      data = [(''inquiryId'', inquiry_id),
              (''source'', source),
              (''threadKey'', py_or thread_key (dget inquiry ''threadKey'')),
              (''extracted'', extracted),
              (''sender'', py_or sender (dget inquiry ''sender''))]\<rparr>"

definition persist_and_emit ::
  "env \<Rightarrow> pyval \<Rightarrow> pyval \<Rightarrow> pyval \<Rightarrow> pyval \<Rightarrow> pyval \<Rightarrow> ctx \<Rightarrow> ctx" where
  \<comment> \<open>lines 141 to 170\<close>
  "persist_and_emit env inquiry_id source thread_key sender extracted c =
     (let found = (case state_get ''inquiries'' inquiry_id c of
                     None \<Rightarrow> False | Some r \<Rightarrow> r \<noteq> []);
          c = (if found then c else log Error ''Inquiry {inquiry_id} not found in state'' c);
          inquiry = updated_inquiry env extracted sender (load_or_stub inquiry_id c);
          c = state_set ''inquiries'' inquiry_id inquiry c;
          c = log Info ''Inquiry updated in state: {inquiry_id}'' c;
          c = emit (extracted_event inquiry_id source thread_key extracted sender inquiry) c
      in log Info ''Emitted inquiry.extracted event for {inquiry_id}'' c)"

definition log_parse_error :: "ctx \<Rightarrow> ctx" where
  \<comment> \<open>lines 132 to 136\<close>
  "log_parse_error c =
     log Error (rule80 CHR ''='')
       (log Error ''Error: {str(json_err)}''
         (log Error ''Raw Response: {extracted_json}''
           (log Error ''JSON PARSE ERROR for Inquiry: {inquiry_id}''
             (log Error (rule80 CHR ''='') c))))"

definition log_extraction_failed :: "ctx \<Rightarrow> ctx" where
  \<comment> \<open>lines 173 to 178\<close>
  "log_extraction_failed c =
     log Error (rule80 CHR ''='')
       (log Error ''Stack Trace: {...}''
         (log Error ''Error Message: {str(e)}''
           (log Error ''Error Type: {type(e).__name__}''
             (log Error ''EXTRACTION FAILED for Inquiry: {inquiry_id}''
               (log Error (rule80 CHR ''='') c)))))"

definition log_response :: "ctx \<Rightarrow> ctx" where
  \<comment> \<open>lines 110 to 114\<close>
  "log_response c =
     log Info (rule80 CHR ''-'')
       (log Info ''Raw AI Response: {extracted_json}''
         (log Info (rule80 CHR ''='')
           (log Info ''AI EXTRACTION RESPONSE for Inquiry: {inquiry_id}''
             (log Info (rule80 CHR ''='') c))))"

definition extract_try ::
  "env \<Rightarrow> pyval \<Rightarrow> pyval \<Rightarrow> pyval \<Rightarrow> pyval \<Rightarrow> pyval \<Rightarrow> ctx \<Rightarrow> exn option \<times> ctx" where
  \<comment> \<open>the body of the outer \<open>try\<close> (lines 59 to 170)\<close>
  "extract_try env inquiry_id body source thread_key sender c =
     (case groq_init env of
        Some e \<Rightarrow> (Some e, c)
      | None \<Rightarrow>
          (let c = send (extract_request body) c in
           case create env (extract_request body) of
             Inl e \<Rightarrow> (Some e, c)
           | Inr extracted_json \<Rightarrow>
               (let c = log_response c in
                case loads env extracted_json of
                  Inl json_err \<Rightarrow>
                    (None, mark_as_failed inquiry_id (''JSON parse error: '' @ json_err)
                             (log_parse_error c))
                | Inr extracted \<Rightarrow>
                    (case log_extracted extracted c of
                       (Some e, c) \<Rightarrow> (Some e, c)
                     | (None, c) \<Rightarrow>
                         (None, persist_and_emit env inquiry_id source thread_key
                                  sender extracted c)))))"

definition extract_handler :: "env \<Rightarrow> dict \<Rightarrow> ctx \<Rightarrow> exn option \<times> ctx" where
  "extract_handler env input_data c =
     (let inquiry_id = dget input_data ''inquiryId'';
          body = dget input_data ''body'';
          source = dget input_data ''source'';
          thread_key = dget input_data ''threadKey'';
          sender = dget input_data ''sender'';
          c = log Info ''Starting extraction for {inquiry_id}'' c
      in andthen (if truthy sender then py_get sender ''name'' else Inr PNone) (\<lambda>_ c.
           let c = (if truthy sender then log Info ''Sender in input: {...}'' c else c);
               c = log Info ''AI Extraction Input: {body}'' c
           in if \<not> truthy body
              then (None, log Warn ''No message body for inquiry {inquiry_id}'' c)
              else (case extract_try env inquiry_id body source thread_key sender c of
                      (None, c) \<Rightarrow> (None, c)
                    | (Some e, c) \<Rightarrow>
                        (None, mark_as_failed inquiry_id (exn_msg e)
                                 (log_extraction_failed c)))) c)"

section \<open>ClassifyMessage: the handler\<close>

definition full_text :: "pyval \<Rightarrow> pyval \<Rightarrow> pyval \<Rightarrow> frag list" where
  \<comment> \<open>lines 98 to 102: the user message, as the parts of its format string\<close>
  "full_text subject body sender_name =
     (let t = (if truthy subject
               then [Lit ''Subject: '', Val subject, Lit [CHR 0x0A, CHR 0x0A], Val body]
               else [Val body])
      in if truthy sender_name
         then [Lit ''Sender Name: '', Val sender_name, Lit [CHR 0x0A]] @ t
         else t)"

definition classify_request :: "pyval \<Rightarrow> pyval \<Rightarrow> pyval \<Rightarrow> request" where
  "classify_request subject body sender_name =
     \<lparr>req_model = llama_model, req_system = ClassifierPrompt,
      req_user = full_text subject body sender_name, req_temperature = 2 / 10\<rparr>"

definition email_passthrough :: "dict \<Rightarrow> pyval \<Rightarrow> dict \<Rightarrow> dict" where
  \<comment> \<open>lines 152 to 158 (and their copies at 189 to 195 and 225 to 231)\<close>
  "email_passthrough input_data source emit_data =
     (if source = PStr ''email''
      then (let emit_data = (if truthy (dget input_data ''inReplyTo'')
                             then setitem ''inReplyTo'' (dget input_data ''inReplyTo'') emit_data
                             else emit_data);
                emit_data = (if truthy (dget input_data ''references'')
                             then setitem ''references'' (dget input_data ''references'') emit_data
                             else emit_data);
                emit_data = (if truthy (dget input_data ''emailHeaders'')
                             then setitem ''emailHeaders'' (dget input_data ''emailHeaders'') emit_data
                             else emit_data)
            in emit_data)
      else emit_data)"

definition base_emit_data ::
  "env \<Rightarrow> dict \<Rightarrow> pyval \<Rightarrow> pyval \<Rightarrow> pyval \<Rightarrow> pyval \<Rightarrow> pyval \<Rightarrow> pyval \<Rightarrow> pyval \<Rightarrow> pyval \<Rightarrow> pyval \<Rightarrow> dict" where
  \<comment> \<open>the dict literal at lines 137 to 150 (and 174 to 187, 210 to 223)\<close>
  "base_emit_data env input_data message_id source body subject sender
       is_brand_inquiry confidence reasoning keywords =
     [(''messageId'', message_id),
      (''source'', source),
      (''body'', body),
      (''subject'', subject),
      (''senderId'', dget input_data ''senderId''),
      (''sender'', sender),
      (''pageName'', dget input_data ''pageName''),
      (''isBrandInquiry'', is_brand_inquiry),
      (''confidence'', confidence),
      (''reasoning'', reasoning),
      (''keywords'', keywords),
      (''classifiedAt'', PStr (now_iso env))]"

definition classified_event ::
  "env \<Rightarrow> dict \<Rightarrow> pyval \<Rightarrow> pyval \<Rightarrow> pyval \<Rightarrow> pyval \<Rightarrow> pyval \<Rightarrow> pyval \<Rightarrow> pyval \<Rightarrow> pyval \<Rightarrow> pyval \<Rightarrow> event" where
  "classified_event env input_data message_id source body subject sender
       is_brand_inquiry confidence reasoning keywords =
     \<lparr>topic = ''message.classified'',
      data = email_passthrough input_data source
               (base_emit_data env input_data message_id source body subject sender
                  is_brand_inquiry confidence reasoning keywords)\<rparr>"

definition classify_parsed ::
  "env \<Rightarrow> dict \<Rightarrow> pyval \<Rightarrow> pyval \<Rightarrow> pyval \<Rightarrow> pyval \<Rightarrow> pyval \<Rightarrow> pyval \<Rightarrow> ctx \<Rightarrow> exn option \<times> ctx" where
  \<comment> \<open>lines 124 to 165, after \<open>json.loads\<close> succeeded\<close>
  "classify_parsed env input_data message_id source body subject sender classification =
     andthen (py_get_default classification ''isBrandInquiry'' (PBool False)) (\<lambda>is_brand_inquiry.
     andthen (py_get_default classification ''confidence'' (PFloat 0)) (\<lambda>confidence.
     andthen (py_get_default classification ''reasoning'' (PStr ''No reasoning provided'')) (\<lambda>reasoning.
     andthen (py_get_default classification ''keywords'' (PList [])) (\<lambda>keywords c.
       eval_log (fmt_percent confidence) ''Confidence: {confidence:.2%}'' (\<lambda>c.
       eval_log (if truthy keywords then py_join keywords else Inr ())
         ''Keywords Found: {...}'' (\<lambda>c.
       (None, log Info ''Classification event emitted for {message_id}''
                (emit (classified_event env input_data message_id source body subject sender
                         is_brand_inquiry confidence reasoning keywords)
                   (log Info (rule80 CHR ''='') c))))
         (log Info ''Reasoning: {reasoning}'' c))
         (log Info ''Classification Result: {...}'' c)))))"

definition log_classify_parse_error :: "ctx \<Rightarrow> ctx" where
  \<comment> \<open>lines 168 to 172\<close>
  "log_classify_parse_error c =
     log Error (rule80 CHR ''='')
       (log Error ''Error: {str(json_err)}''
         (log Error ''Raw Response: {classification_json}''
           (log Error ''JSON PARSE ERROR for Classification: {message_id}''
             (log Error (rule80 CHR ''='') c))))"

definition log_classification_failed :: "ctx \<Rightarrow> ctx" where
  \<comment> \<open>lines 203 to 207\<close>
  "log_classification_failed c =
     log Error (rule80 CHR ''='')
       (log Error ''Error Message: {str(e)}''
         (log Error ''Error Type: {type(e).__name__}''
           (log Error ''CLASSIFICATION FAILED for Message: {message_id}''
             (log Error (rule80 CHR ''='') c))))"

definition classify_try ::
  "env \<Rightarrow> dict \<Rightarrow> pyval \<Rightarrow> pyval \<Rightarrow> pyval \<Rightarrow> pyval \<Rightarrow> pyval \<Rightarrow> pyval \<Rightarrow> ctx \<Rightarrow> exn option \<times> ctx" where
  \<comment> \<open>the body of the outer \<open>try\<close> (lines 64 to 200)\<close>
  "classify_try env input_data message_id source body subject sender sender_name c =
     (case groq_init env of
        Some e \<Rightarrow> (Some e, c)
      | None \<Rightarrow>
          (let c = send (classify_request subject body sender_name) c in
           case create env (classify_request subject body sender_name) of
             Inl e \<Rightarrow> (Some e, c)
           | Inr classification_json \<Rightarrow>
               (let c = log Info (rule80 CHR ''-'')
                          (log Info ''AI Classification Response: {classification_json}'' c) in
                case loads env classification_json of
                  Inl json_err \<Rightarrow>
                    (None, emit (classified_event env input_data message_id source body subject
                                   sender (PBool False) (PFloat 0)
                                   (PStr (''Classification failed: '' @ json_err)) (PList []))
                             (log_classify_parse_error c))
                | Inr classification \<Rightarrow>
                    classify_parsed env input_data message_id source body subject sender
                      classification c)))"

definition log_classify_start :: "ctx \<Rightarrow> ctx" where
  \<comment> \<open>lines 51 to 56\<close>
  "log_classify_start c =
     log Info ''Subject: {subject}''
       (log Info ''Sender: {sender_name or input_data.get('senderId')}''
         (log Info ''Source: {source}''
           (log Info (rule80 CHR ''='')
             (log Info ''CLASSIFYING MESSAGE: {message_id}''
               (log Info (rule80 CHR ''='') c)))))"

definition classify_handler :: "env \<Rightarrow> dict \<Rightarrow> ctx \<Rightarrow> exn option \<times> ctx" where
  "classify_handler env input_data c =
     (let message_id = dget input_data ''messageId'';
          body = dget input_data ''html'';
          source = dget input_data ''source'';
          subject = dget_default input_data ''subject'' (PStr '''');
          sender = dget_default input_data ''sender'' (PDict [])
      in andthen (py_get sender ''name'') (\<lambda>sender_name c.
           eval_log (py_slice100 body) ''Body Preview: {body[:100]}...'' (\<lambda>c.
             if \<not> truthy body
             then (None, log Warn ''No message body for {message_id}'' c)
             else (case classify_try env input_data message_id source body subject sender
                          sender_name c of
                     (None, c) \<Rightarrow> (None, c)
                   | (Some e, c) \<Rightarrow>
                       (None, emit (classified_event env input_data message_id source body
                                      subject sender (PBool False) (PFloat 0)
                                      (PStr (''Classification error: '' @ exn_msg e)) (PList []))
                                (log_classification_failed c))))
             (log_classify_start c)) c)"

section \<open>Concrete collaborators for the examples\<close>

definition fixed_env :: "exn + string \<Rightarrow> string + pyval \<Rightarrow> env" where
  \<comment> \<open>a client that answers every request with the same outcome, and a decoder result for
      that answer\<close>
  "fixed_env answer parsed =
     \<lparr>groq_init = None, create = (\<lambda>rq. answer), loads = (\<lambda>s. parsed),
      now_iso = ''2025-01-01T10:00:00''\<rparr>"

definition demo_store :: store where
  \<comment> \<open>a store holding one Inquiry as the upstream step leaves it\<close>
  "demo_store = Map.empty((''inquiries'', PStr ''i1'') \<mapsto>
     [(''id'', PStr ''i1''), (''status'', PStr ''received''), (''threadKey'', PStr ''t1'')])"

section \<open>Predicates used in the statements\<close>

definition sender_well_formed :: "dict \<Rightarrow> bool" where
  \<comment> \<open>the input schema declares \<open>sender\<close> an object; a missing or empty value is skipped by
      the handler's \<open>if sender\<close>\<close>
  "sender_well_formed input_data =
     (case dget input_data ''sender'' of PDict d \<Rightarrow> True | v \<Rightarrow> \<not> truthy v)"

definition obj_or_absent :: "dict \<Rightarrow> string \<Rightarrow> bool" where
  "obj_or_absent d k = (case map_of d k of None \<Rightarrow> True | Some (PDict x) \<Rightarrow> True | Some _ \<Rightarrow> False)"

definition sized_or_absent :: "dict \<Rightarrow> string \<Rightarrow> bool" where
  "sized_or_absent d k =
     (case map_of d k of
        None \<Rightarrow> True
      | Some (PStr s) \<Rightarrow> True | Some (PList xs) \<Rightarrow> True | Some (PDict x) \<Rightarrow> True
      | Some _ \<Rightarrow> False)"

definition deal_shape_ok :: "dict \<Rightarrow> bool" where
  \<comment> \<open>the parsed object has the nesting the prompt asks for, as far as the handler reads
      it: \<open>brand\<close>, \<open>campaign\<close> and \<open>campaign.budget\<close> are objects when present, and
      \<open>campaign.deliverables\<close> has a length when present\<close>
  "deal_shape_ok d =
     (obj_or_absent d ''brand'' \<and>
      (case map_of d ''campaign'' of
         None \<Rightarrow> True
       | Some (PDict cm) \<Rightarrow> sized_or_absent cm ''deliverables'' \<and> obj_or_absent cm ''budget''
       | Some _ \<Rightarrow> False))"



definition completion_parsed :: "env \<Rightarrow> request \<Rightarrow> pyval \<Rightarrow> bool" where
  \<comment> \<open>the call returns a text that \<open>json.loads\<close> parses to \<open>v\<close>\<close>
  "completion_parsed env rq v =
     (case groq_init env of
        Some e' \<Rightarrow> False
      | None \<Rightarrow> (case create env rq of Inl e \<Rightarrow> False | Inr content \<Rightarrow> loads env content = Inr v))"

definition terminal_status :: "dict option \<Rightarrow> bool" where
  "terminal_status ro =
     (case ro of
        None \<Rightarrow> False
      | Some r \<Rightarrow> map_of r ''status'' = Some (PStr ''extracted'')
                \<or> map_of r ''status'' = Some (PStr ''extraction_failed''))"

fun run_extract :: "(env \<times> dict) list \<Rightarrow> store \<Rightarrow> store" where
  \<comment> \<open>a sequence of ExtractInquiry invocations, each with its own collaborators and input,
      sharing the store\<close>
  "run_extract [] st = st"
| "run_extract ((env, input_data) # rest) st =
     run_extract rest (store (snd (extract_handler env input_data (ctx_init st))))"

definition failed_record :: "string \<Rightarrow> dict \<Rightarrow> dict" where
  \<comment> \<open>what \<open>mark_as_failed\<close> writes, given the record it loaded\<close>
  "failed_record m r = setitem ''error'' (PStr m) (setitem ''status'' (PStr ''extraction_failed'') r)"


definition brand_null_json :: string where
  \<open>brand_null_json = ''{"brand": null}''\<close>

definition inquiry_input :: dict where
  \<comment> \<open>the input of the spec's scenario\<close>
  "inquiry_input =
     [(''inquiryId'', PStr ''i1''), (''source'', PStr ''email''),
      (''body'', PStr ''We want a reel, budget 50000 INR, 2 weeks'')]"

definition deal_json :: string where
  \<comment> \<open>a completion answer of the shape the extraction prompt asks for\<close>
  \<open>deal_json = ''{"brand": {"contactPerson": null, "email": null}, "campaign": {"deliverables": [{"type": "instagram_reel", "count": 1, "description": "a reel"}], "timeline": "2 weeks", "budget": {"mentioned": true, "amount": 50000, "currency": "INR"}}, "urgency": "medium", "additionalNotes": ""}''\<close>

definition deal_parsed :: dict where
  \<comment> \<open>what \<open>json.loads\<close> makes of it\<close>
  "deal_parsed =
     [(''brand'', PDict [(''contactPerson'', PNone), (''email'', PNone)]),
      (''campaign'', PDict
         [(''deliverables'', PList [PDict [(''type'', PStr ''instagram_reel''), (''count'', PInt 1),
                                          (''description'', PStr ''a reel'')]]),
          (''timeline'', PStr ''2 weeks''),
          (''budget'', PDict [(''mentioned'', PBool True), (''amount'', PInt 50000),
                             (''currency'', PStr ''INR'')])]),
      (''urgency'', PStr ''medium''),
      (''additionalNotes'', PStr '''')]"

definition deal_env :: env where
  "deal_env = fixed_env (Inr deal_json) (Inr (PDict deal_parsed))"

definition empty_object_env :: env where
  \<comment> \<open>the completion answers with the empty JSON object\<close>
  "empty_object_env = fixed_env (Inr ''{}'') (Inr (PDict []))"

definition unreachable_env :: env where
  \<comment> \<open>the completion call fails\<close>
  "unreachable_env = fixed_env (Inl (Exn ''APIConnectionError'' ''Connection error.'')) (Inl '''')"

definition store_with_sender :: "pyval \<Rightarrow> store" where
  \<comment> \<open>a store whose Inquiry i1 already has a \<open>sender\<close> field\<close>
  "store_with_sender s = Map.empty((''inquiries'', PStr ''i1'') \<mapsto>
     [(''id'', PStr ''i1''), (''status'', PStr ''received''), (''threadKey'', PStr ''t1''),
      (''sender'', s)])"

definition inquiry_input_from :: "pyval \<Rightarrow> dict" where
  "inquiry_input_from s = inquiry_input @ [(''sender'', s)]"

definition message_input :: dict where
  \<comment> \<open>a ClassifyMessage input with the three required fields\<close>
  "message_input =
     [(''messageId'', PStr ''m1''), (''source'', PStr ''email''),
      (''body'', PStr ''Hi, we would like to collaborate on a reel'')]"

definition classification_json :: string where
  \<open>classification_json = ''{"isBrandInquiry": true, "confidence": 0.9, "reasoning": "Asks for a reel", "keywords": ["collaborate", "reel"]}''\<close>

definition classification_parsed :: dict where
  "classification_parsed =
     [(''isBrandInquiry'', PBool True), (''confidence'', PFloat (9 / 10)),
      (''reasoning'', PStr ''Asks for a reel''),
      (''keywords'', PList [PStr ''collaborate'', PStr ''reel''])]"

definition classifier_env :: env where
  "classifier_env = fixed_env (Inr classification_json) (Inr (PDict classification_parsed))"

definition garbled_env :: env where
  \<comment> \<open>the completion answers with a text that is not JSON\<close>
  "garbled_env = fixed_env (Inr ''not json'') (Inl ''Expecting value: line 1 column 1 (char 0)'')"

definition reply_input :: "string \<Rightarrow> dict" where
  \<comment> \<open>a reply in a thread, arriving on the given channel, carrying the text under \<open>html\<close>
      as well\<close>
  "reply_input channel =
     [(''messageId'', PStr ''m2''), (''source'', PStr channel),
      (''body'', PStr ''Re: the reel''), (''html'', PStr ''<p>Re: the reel</p>''),
      (''inReplyTo'', PStr ''<msg1>'')]"

definition first_email_input :: dict where
  \<comment> \<open>the first email of a thread: the threading fields are there and empty\<close>
  "first_email_input =
     [(''messageId'', PStr ''m3''), (''source'', PStr ''email''),
      (''body'', PStr ''About a reel''), (''html'', PStr ''<p>About a reel</p>''),
      (''inReplyTo'', PStr ''''), (''references'', PList [])]"

definition empty_body_input :: dict where
  \<comment> \<open>an input whose \<open>body\<close> is empty and which also has an \<open>html\<close> field\<close>
  "empty_body_input =
     [(''messageId'', PStr ''m4''), (''source'', PStr ''facebook''),
      (''body'', PStr ''''), (''html'', PStr ''<p>Hi</p>'')]"

definition classified_payloads :: "env \<Rightarrow> dict \<Rightarrow> dict list" where
  \<comment> \<open>the payloads of the events one ClassifyMessage run emits\<close>
  "classified_payloads env input_data =
     map data (emitted (snd (classify_handler env input_data (ctx_init Map.empty))))"

section \<open>Dict lemmas\<close>

lemma map_of_setitem: "map_of (setitem k v d) = (map_of d)(k \<mapsto> v)"
  by (simp add: setitem_def update_conv')



lemma dget_setitem: "dget (setitem k v d) k' = (if k' = k then v else dget d k')"
  by (simp add: dget_def map_of_setitem)

section \<open>mark_as_failed\<close>






section \<open>ExtractInquiry: effects of each part\<close>

lemma log_sel [simp]:
  "store (log l m c) = store c" "emitted (log l m c) = emitted c" "requests (log l m c) = requests c"
  "logs (log l m c) = logs c @ [(l, m)]"
  by (simp_all add: log_def)

lemma emit_sel [simp]:
  "store (emit ev c) = store c" "emitted (emit ev c) = emitted c @ [ev]" "requests (emit ev c) = requests c"
  "logs (emit ev c) = logs c"
  by (simp_all add: emit_def)

lemma send_sel [simp]:
  "store (send rq c) = store c" "emitted (send rq c) = emitted c" "requests (send rq c) = requests c @ [rq]"
  "logs (send rq c) = logs c"
  by (simp_all add: send_def)

lemma state_set_sel [simp]:
  "store (state_set g k v c) = (store c)((g, k) \<mapsto> v)" "emitted (state_set g k v c) = emitted c"
  "requests (state_set g k v c) = requests c" "logs (state_set g k v c) = logs c"
  by (simp_all add: state_set_def)

lemma state_get_log [simp]: "state_get g k (log l m c) = state_get g k c"
  by (simp add: state_get_def)

lemma load_or_stub_log [simp]: "load_or_stub i (log l m c) = load_or_stub i c"
  by (simp add: load_or_stub_def)

lemma mark_as_failed_sel [simp]:
  "store (mark_as_failed i m c) = (store c)((''inquiries'', i) \<mapsto>
     setitem ''error'' (PStr m) (setitem ''status'' (PStr ''extraction_failed'') (load_or_stub i c)))"
  "emitted (mark_as_failed i m c) = emitted c"
  "requests (mark_as_failed i m c) = requests c"
  "logs (mark_as_failed i m c) = logs c"
  by (simp_all add: mark_as_failed_def Let_def)

lemma log_extracted_frame:
  "store (snd (log_extracted ex c)) = store c \<and> emitted (snd (log_extracted ex c)) = emitted c
   \<and> requests (snd (log_extracted ex c)) = requests c"
  by (simp add: log_extracted_def eval_log_def andthen_def split: sum.splits)



lemma get2_ok:
  "obj_or_absent d k \<Longrightarrow>
     \<exists>x. sbind (py_get_default (PDict d) k (PDict [])) (\<lambda>b. py_get_default b k2 dflt) = Inr x"
  by (auto simp: obj_or_absent_def sbind_def py_get_default_def dget_default_def
           split: option.splits pyval.splits)

lemma campaign_obj: "deal_shape_ok d \<Longrightarrow> obj_or_absent d ''campaign''"
  by (auto simp: deal_shape_ok_def obj_or_absent_def split: option.splits pyval.splits)

lemma deliverables_ok:
  "deal_shape_ok d \<Longrightarrow>
     \<exists>n. sbind (sbind (py_get_default (PDict d) ''campaign'' (PDict []))
            (\<lambda>cm. py_get_default cm ''deliverables'' (PList []))) py_len = Inr n"
  by (auto simp: deal_shape_ok_def sized_or_absent_def sbind_def py_get_default_def dget_default_def
                 py_len_def
           split: option.splits pyval.splits)

lemma budget_ok:
  "deal_shape_ok d \<Longrightarrow> \<exists>bd. budget_of (PDict d) = Inr (PDict bd)"
  by (auto simp: deal_shape_ok_def obj_or_absent_def budget_of_def sbind_def py_get_default_def
                 dget_default_def
           split: option.splits pyval.splits)

lemma log_extracted_ok:
  assumes "deal_shape_ok d"
  shows "fst (log_extracted (PDict d) c) = None"
proof -
  have b: "obj_or_absent d ''brand''" using assms by (simp add: deal_shape_ok_def)
  obtain x1 where x1: "sbind (py_get_default (PDict d) ''brand'' (PDict []))
      (\<lambda>b. py_get_default b ''contactPerson'' (PStr ''N/A'')) = Inr x1"
    using get2_ok [OF b] by blast
  obtain x2 where x2: "sbind (py_get_default (PDict d) ''brand'' (PDict []))
      (\<lambda>b. py_get_default b ''email'' (PStr ''N/A'')) = Inr x2"
    using get2_ok [OF b] by blast
  obtain n where x3: "sbind (sbind (py_get_default (PDict d) ''campaign'' (PDict []))
            (\<lambda>cm. py_get_default cm ''deliverables'' (PList []))) py_len = Inr n"
    using deliverables_ok [OF assms] by blast
  obtain x4 where x4: "sbind (py_get_default (PDict d) ''campaign'' (PDict []))
      (\<lambda>b. py_get_default b ''timeline'' (PStr ''N/A'')) = Inr x4"
    using get2_ok [OF campaign_obj [OF assms]] by blast
  obtain bd where bd: "budget_of (PDict d) = Inr (PDict bd)"
    using budget_ok [OF assms] by blast
  have u: "py_get_default (PDict d) ''urgency'' (PStr ''N/A'') = Inr (dget_default d ''urgency'' (PStr ''N/A''))"
    by (simp add: py_get_default_def)
  show ?thesis
    unfolding log_extracted_def x1 x2 x3 x4 bd u
    by (simp add: eval_log_def andthen_def sbind_def py_get_default_def py_get_def)
qed


lemma log_extracted_frameD:
  "log_extracted ex c = (x, c') \<Longrightarrow>
     store c' = store c \<and> emitted c' = emitted c \<and> requests c' = requests c"
  using log_extracted_frame [of ex c] by simp

lemma load_or_stub_store: "store c' = store c \<Longrightarrow> load_or_stub i c' = load_or_stub i c"
  by (simp add: load_or_stub_def state_get_def)

lemma persist_and_emit_sel:
  "store (persist_and_emit env i src tk sender ex c) =
     (store c)((''inquiries'', i) \<mapsto> updated_inquiry env ex sender (load_or_stub i c))"
  "emitted (persist_and_emit env i src tk sender ex c) =
     emitted c @ [extracted_event i src tk ex sender (updated_inquiry env ex sender (load_or_stub i c))]"
  "requests (persist_and_emit env i src tk sender ex c) = requests c"
  by (simp_all add: persist_and_emit_def Let_def)

lemma log_sel_more [simp]:
  "store (log_response c) = store c" "emitted (log_response c) = emitted c"
  "requests (log_response c) = requests c"
  "store (log_parse_error c) = store c" "emitted (log_parse_error c) = emitted c"
  "requests (log_parse_error c) = requests c"
  "store (log_extraction_failed c) = store c" "emitted (log_extraction_failed c) = emitted c"
  "requests (log_extraction_failed c) = requests c"
  by (simp_all add: log_response_def log_parse_error_def log_extraction_failed_def)

lemma load_or_stub_frame [simp]:
  "load_or_stub i (log_response c) = load_or_stub i c"
  "load_or_stub i (log_parse_error c) = load_or_stub i c"
  "load_or_stub i (log_extraction_failed c) = load_or_stub i c"
  "load_or_stub i (send rq c) = load_or_stub i c"
  by (simp_all add: load_or_stub_def state_get_def)

lemma extract_try_cases:
  assumes "extract_try env i body src tk sender c = (x, c')"
  shows "(emitted c' = emitted c \<and> store c' = store c)
         \<or> (\<exists>m. x = None \<and> emitted c' = emitted c
                 \<and> store c' = (store c)((''inquiries'', i) \<mapsto> failed_record m (load_or_stub i c)))
         \<or> (\<exists>ex. x = None
               \<and> store c' = (store c)((''inquiries'', i) \<mapsto>
                     updated_inquiry env ex sender (load_or_stub i c))
               \<and> emitted c' = emitted c @ [extracted_event i src tk ex sender
                     (updated_inquiry env ex sender (load_or_stub i c))])"
proof (cases "groq_init env")
  case (Some e)
  with assms show ?thesis by (simp add: extract_try_def)
next
  case None
  show ?thesis
  proof (cases "create env (extract_request body)")
    case (Inl e)
    with None assms show ?thesis by (auto simp: extract_try_def Let_def)
  next
    case (Inr content)
    show ?thesis
    proof (cases "loads env content")
      case (Inl err)
      with None Inr assms have "c' = mark_as_failed i (''JSON parse error: '' @ err)
                             (log_parse_error (log_response (send (extract_request body) c)))"
        and "x = None"
        by (auto simp: extract_try_def Let_def)
      then show ?thesis
        by (auto simp: failed_record_def)
    next
      case (Inr ex)
      obtain y c2 where l: "log_extracted ex (log_response (send (extract_request body) c)) = (y, c2)"
        by (cases "log_extracted ex (log_response (send (extract_request body) c))") 
      from log_extracted_frameD [OF l]
      have f: "store c2 = store c" "emitted c2 = emitted c" by simp_all
      have ls: "load_or_stub i c2 = load_or_stub i c"
        by (rule load_or_stub_store) (rule f)
      show ?thesis
      proof (cases y)
        case (Some e)
        with None \<open>create env (extract_request body) = Inr content\<close> Inr l assms
        have "c' = c2" by (simp add: extract_try_def Let_def)
        with f show ?thesis by simp
      next
        case None2: None
        with None \<open>create env (extract_request body) = Inr content\<close> Inr l assms
        have "c' = persist_and_emit env i src tk sender ex c2" and "x = None"
          by (simp_all add: extract_try_def Let_def)
        then show ?thesis
          by (intro disjI2 exI [of _ ex]) (simp add: persist_and_emit_sel f ls)
      qed
    qed
  qed
qed


lemma extract_handler_cases:
  "(emitted (snd (extract_handler env input_data c)) = emitted c
      \<and> store (snd (extract_handler env input_data c)) = store c)
   \<or> (\<exists>m. emitted (snd (extract_handler env input_data c)) = emitted c
           \<and> store (snd (extract_handler env input_data c)) =
               (store c)((''inquiries'', dget input_data ''inquiryId'') \<mapsto>
                  failed_record m (load_or_stub (dget input_data ''inquiryId'') c)))
   \<or> (\<exists>ex. store (snd (extract_handler env input_data c)) =
               (store c)((''inquiries'', dget input_data ''inquiryId'') \<mapsto>
                  updated_inquiry env ex (dget input_data ''sender'')
                    (load_or_stub (dget input_data ''inquiryId'') c))
            \<and> emitted (snd (extract_handler env input_data c)) =
               emitted c @ [extracted_event (dget input_data ''inquiryId'')
                  (dget input_data ''source'') (dget input_data ''threadKey'') ex
                  (dget input_data ''sender'')
                  (updated_inquiry env ex (dget input_data ''sender'')
                     (load_or_stub (dget input_data ''inquiryId'') c))])"
  (is "?A \<or> ?B \<or> ?C")
proof -
  let ?c' = "snd (extract_handler env input_data c)"
  let ?i = "dget input_data ''inquiryId''"
  let ?sender = "dget input_data ''sender''"
  show ?thesis
  proof (cases "if truthy ?sender then py_get ?sender ''name'' else Inr PNone")
    case (Inl e)
    then have "?c' = log Info ''Starting extraction for {inquiry_id}'' c"
      by (simp add: extract_handler_def Let_def andthen_def)
    then show ?thesis by simp
  next
    case (Inr nm)
    define c1 where "c1 = log Info ''AI Extraction Input: {body}''
       (if truthy ?sender then log Info ''Sender in input: {...}''
          (log Info ''Starting extraction for {inquiry_id}'' c)
        else log Info ''Starting extraction for {inquiry_id}'' c)"
    have f1: "store c1 = store c" "emitted c1 = emitted c"
      by (simp_all add: c1_def)
    have l1: "load_or_stub ?i c1 = load_or_stub ?i c"
      by (rule load_or_stub_store) (rule f1)
    show ?thesis
    proof (cases "truthy (dget input_data ''body'')")
      case False
      with Inr have "?c' = log Warn ''No message body for inquiry {inquiry_id}'' c1"
        by (simp add: extract_handler_def Let_def andthen_def c1_def)
      then show ?thesis by (simp add: f1)
    next
      case True
      obtain x c2 where t: "extract_try env ?i (dget input_data ''body'') (dget input_data ''source'')
          (dget input_data ''threadKey'') ?sender c1 = (x, c2)"
        by (cases "extract_try env ?i (dget input_data ''body'') (dget input_data ''source'')
          (dget input_data ''threadKey'') ?sender c1")
      have h: "?c' = (case x of None \<Rightarrow> c2
                     | Some e \<Rightarrow> mark_as_failed ?i (exn_msg e) (log_extraction_failed c2))"
        using Inr True t
        by (simp add: extract_handler_def Let_def andthen_def c1_def
                 split: option.splits)
      show ?thesis
      proof (cases x)
        case None
        with h have "?c' = c2" by simp
        with extract_try_cases [OF t] show ?thesis
          by (simp add: f1 l1 None)
      next
        case (Some e)
        with extract_try_cases [OF t] have f2: "emitted c2 = emitted c1" "store c2 = store c1"
          by simp_all
        have l2: "load_or_stub ?i c2 = load_or_stub ?i c"
          by (rule load_or_stub_store) (simp add: f1 f2)
        have l3: "load_or_stub ?i (log_extraction_failed c2) = load_or_stub ?i c"
          using l2 by simp
        from h Some have "?c' = mark_as_failed ?i (exn_msg e) (log_extraction_failed c2)" by simp
        then show ?thesis
          by (intro disjI2 disjI1 exI [of _ "exn_msg e"])
             (simp add: failed_record_def f1 f2 l2)
      qed
    qed
  qed
qed


lemma sender_name_ok:
  "sender_well_formed input_data \<Longrightarrow>
     \<exists>x. (if truthy (dget input_data ''sender'')
          then py_get (dget input_data ''sender'') ''name'' else Inr PNone) = Inr x"
  by (auto simp: sender_well_formed_def py_get_def py_get_default_def split: pyval.splits)

lemma extract_handler_reduce:
  assumes "sender_well_formed input_data" and "truthy (dget input_data ''body'')"
  shows "\<exists>c1. store c1 = store c \<and> emitted c1 = emitted c \<and> requests c1 = requests c
           \<and> extract_handler env input_data c =
               (case extract_try env (dget input_data ''inquiryId'') (dget input_data ''body'')
                       (dget input_data ''source'') (dget input_data ''threadKey'')
                       (dget input_data ''sender'') c1 of
                  (None, c') \<Rightarrow> (None, c')
                | (Some e, c') \<Rightarrow>
                    (None, mark_as_failed (dget input_data ''inquiryId'') (exn_msg e)
                             (log_extraction_failed c')))"
proof -
  obtain x where x: "(if truthy (dget input_data ''sender'')
          then py_get (dget input_data ''sender'') ''name'' else Inr PNone) = Inr x"
    using sender_name_ok [OF assms(1)] by blast
  let ?c1 = "log Info ''AI Extraction Input: {body}''
       (if truthy (dget input_data ''sender'') then log Info ''Sender in input: {...}''
          (log Info ''Starting extraction for {inquiry_id}'' c)
        else log Info ''Starting extraction for {inquiry_id}'' c)"
  have "extract_handler env input_data c =
               (case extract_try env (dget input_data ''inquiryId'') (dget input_data ''body'')
                       (dget input_data ''source'') (dget input_data ''threadKey'')
                       (dget input_data ''sender'') ?c1 of
                  (None, c') \<Rightarrow> (None, c')
                | (Some e, c') \<Rightarrow>
                    (None, mark_as_failed (dget input_data ''inquiryId'') (exn_msg e)
                             (log_extraction_failed c')))"
    using x assms(2) by (simp add: extract_handler_def Let_def andthen_def)
  moreover have "store ?c1 = store c \<and> emitted ?c1 = emitted c \<and> requests ?c1 = requests c"
    by simp
  ultimately show ?thesis by blast
qed



lemma extract_try_parsed:
  assumes "completion_parsed env (extract_request body) (PDict ex)" and "deal_shape_ok ex"
  shows "\<exists>c2. extract_try env i body src tk sender c =
              (None, persist_and_emit env i src tk sender (PDict ex) c2)
           \<and> store c2 = store c \<and> emitted c2 = emitted c
           \<and> requests c2 = requests c @ [extract_request body]"
proof -
  from assms(1) obtain content where g: "groq_init env = None"
    and cr: "create env (extract_request body) = Inr content"
    and lo: "loads env content = Inr (PDict ex)"
    by (auto simp: completion_parsed_def split: option.splits sum.splits)
  let ?c = "log_response (send (extract_request body) c)"
  have l: "log_extracted (PDict ex) ?c = (None, snd (log_extracted (PDict ex) ?c))"
    using log_extracted_ok [OF assms(2), of ?c] by (simp add: prod_eq_iff)
  have "extract_try env i body src tk sender c =
      (case log_extracted (PDict ex) ?c of
         (Some e, c) \<Rightarrow> (Some e, c)
       | (None, c) \<Rightarrow> (None, persist_and_emit env i src tk sender (PDict ex) c))"
    using g cr lo by (simp add: extract_try_def Let_def)
  also have "\<dots> = (None, persist_and_emit env i src tk sender (PDict ex)
                        (snd (log_extracted (PDict ex) ?c)))"
    by (subst l) simp
  finally show ?thesis
    using log_extracted_frame [of "PDict ex" ?c]
    by (intro exI [of _ "snd (log_extracted (PDict ex) ?c)"]) simp
qed


lemma load_or_stub_persist [simp]:
  "load_or_stub j (ctx_init st) =
     (case st (''inquiries'', j) of None \<Rightarrow> [(''id'', j)] | Some r \<Rightarrow> if r \<noteq> [] then r else [(''id'', j)])"
  by (simp add: load_or_stub_def state_get_def ctx_init_def)

lemma ctx_init_sel [simp]:
  "store (ctx_init st) = st" "emitted (ctx_init st) = []" "requests (ctx_init st) = []"
  "logs (ctx_init st) = []"
  by (simp_all add: ctx_init_def)

lemmas run_defs =
  extract_handler_def extract_try_def updated_inquiry_def
  extracted_event_def log_extracted_def eval_log_def andthen_def sbind_def budget_of_def
  py_get_def py_get_default_def py_len_def dget_def dget_default_def setitem_def
  state_get_def persist_and_emit_sel
  extract_request_def fixed_env_def demo_store_def inquiry_input_def
  py_or_def quoted_def Let_def

lemma map_of_updated_inquiry:
  "map_of (updated_inquiry env ex sender r) k =
     (if k = ''status'' then Some (PStr ''extracted'')
      else if k = ''extractedData'' then Some ex
      else if k = ''extractedAt'' then Some (PStr (now_iso env))
      else if k = ''sender'' \<and> truthy sender \<and> \<not> truthy (dget r ''sender'') then Some sender
      else map_of r k)"
  by (simp add: updated_inquiry_def Let_def map_of_setitem dget_setitem)

lemma extract_handler_success:
  assumes "sender_well_formed input_data" and "truthy (dget input_data ''body'')"
    and "completion_parsed env (extract_request (dget input_data ''body'')) (PDict ex)"
    and "deal_shape_ok ex"
  shows "fst (extract_handler env input_data c) = None"
    and "store (snd (extract_handler env input_data c)) =
           (store c)((''inquiries'', dget input_data ''inquiryId'') \<mapsto>
              updated_inquiry env (PDict ex) (dget input_data ''sender'')
                (load_or_stub (dget input_data ''inquiryId'') c))"
    and "emitted (snd (extract_handler env input_data c)) =
           emitted c @ [extracted_event (dget input_data ''inquiryId'')
              (dget input_data ''source'') (dget input_data ''threadKey'') (PDict ex)
              (dget input_data ''sender'')
              (updated_inquiry env (PDict ex) (dget input_data ''sender'')
                 (load_or_stub (dget input_data ''inquiryId'') c))]"
    and "requests (snd (extract_handler env input_data c)) =
           requests c @ [extract_request (dget input_data ''body'')]"
proof -
  let ?i = "dget input_data ''inquiryId''"
  obtain c1 where c1: "store c1 = store c" "emitted c1 = emitted c" "requests c1 = requests c"
    and h: "extract_handler env input_data c =
               (case extract_try env ?i (dget input_data ''body'')
                       (dget input_data ''source'') (dget input_data ''threadKey'')
                       (dget input_data ''sender'') c1 of
                  (None, c') \<Rightarrow> (None, c')
                | (Some e, c') \<Rightarrow>
                    (None, mark_as_failed ?i (exn_msg e) (log_extraction_failed c')))"
    using extract_handler_reduce [OF assms(1,2), of c env] by blast
  obtain c2 where t: "extract_try env ?i (dget input_data ''body'')
                       (dget input_data ''source'') (dget input_data ''threadKey'')
                       (dget input_data ''sender'') c1
        = (None, persist_and_emit env ?i (dget input_data ''source'')
                   (dget input_data ''threadKey'') (dget input_data ''sender'') (PDict ex) c2)"
    and c2: "store c2 = store c1" "emitted c2 = emitted c1"
            "requests c2 = requests c1 @ [extract_request (dget input_data ''body'')]"
    using extract_try_parsed [OF assms(3,4)] by blast
  have r: "extract_handler env input_data c =
      (None, persist_and_emit env ?i (dget input_data ''source'')
                   (dget input_data ''threadKey'') (dget input_data ''sender'') (PDict ex) c2)"
    by (simp add: h t)
  have l: "load_or_stub ?i c2 = load_or_stub ?i c"
    by (rule load_or_stub_store) (simp add: c1 c2)
  show "fst (extract_handler env input_data c) = None" by (simp add: r)
  show "store (snd (extract_handler env input_data c)) =
           (store c)((''inquiries'', ?i) \<mapsto>
              updated_inquiry env (PDict ex) (dget input_data ''sender'') (load_or_stub ?i c))"
    by (simp add: r persist_and_emit_sel l c1 c2)
  show "emitted (snd (extract_handler env input_data c)) =
           emitted c @ [extracted_event ?i
              (dget input_data ''source'') (dget input_data ''threadKey'') (PDict ex)
              (dget input_data ''sender'')
              (updated_inquiry env (PDict ex) (dget input_data ''sender'') (load_or_stub ?i c))]"
    by (simp add: r persist_and_emit_sel l c1 c2)
  show "requests (snd (extract_handler env input_data c)) =
           requests c @ [extract_request (dget input_data ''body'')]"
    by (simp add: r persist_and_emit_sel l c1 c2)
qed


section \<open>ExtractInquiry: the claims\<close>

text \<open>
  C10 (as amended). When the input's body is missing or empty (any falsy value),
  ExtractInquiry emits nothing, leaves the store as it was and sends no completion
  request; in particular the inquiry is not marked extraction_failed. When moreover the
  sender is absent, empty or an object, as the input schema declares, the handler returns
  normally and the last thing it does is log the warning "No message body for inquiry ...".
\<close>

theorem extract_empty_body_noop:
  assumes "\<not> truthy (dget input_data ''body'')"
  shows "emitted (snd (extract_handler env input_data c)) = emitted c
       \<and> store (snd (extract_handler env input_data c)) = store c
       \<and> requests (snd (extract_handler env input_data c)) = requests c
       \<and> (sender_well_formed input_data \<longrightarrow>
            fst (extract_handler env input_data c) = None
          \<and> last (logs (snd (extract_handler env input_data c)))
              = (Warn, ''No message body for inquiry {inquiry_id}''))"
proof (cases "if truthy (dget input_data ''sender'')
          then py_get (dget input_data ''sender'') ''name'' else Inr PNone")
  case (Inl e)
  then have "\<not> sender_well_formed input_data"
    using sender_name_ok [of input_data] by auto
  moreover from Inl have "snd (extract_handler env input_data c)
      = log Info ''Starting extraction for {inquiry_id}'' c"
    by (simp add: extract_handler_def Let_def andthen_def)
  ultimately show ?thesis by simp
next
  case (Inr x)
  with assms show ?thesis
    by (simp add: extract_handler_def Let_def andthen_def)
qed

theorem extract_empty_body_noop_witness:
  "\<not> truthy (dget [(''inquiryId'', PStr ''i1''), (''source'', PStr ''email''), (''body'', PStr '''')] ''body'')
   \<and> sender_well_formed [(''inquiryId'', PStr ''i1''), (''source'', PStr ''email''), (''body'', PStr '''')]
   \<and> extract_handler (fixed_env (Inr ''{}'') (Inr (PDict [])))
        [(''inquiryId'', PStr ''i1''), (''source'', PStr ''email''), (''body'', PStr '''')]
        (ctx_init demo_store)
      = (None, \<lparr>logs = [(Info, ''Starting extraction for {inquiry_id}''),
                          (Info, ''AI Extraction Input: {body}''),
                          (Warn, ''No message body for inquiry {inquiry_id}'')],
                 emitted = [], requests = [], store = demo_store\<rparr>)"
  using extract_empty_body_noop [of "[(''inquiryId'', PStr ''i1''), (''source'', PStr ''email''), (''body'', PStr '''')]"
          "fixed_env (Inr ''{}'') (Inr (PDict []))" "ctx_init demo_store"]
  by (simp add: extract_handler_def Let_def andthen_def dget_def sender_well_formed_def ctx_init_def log_def)

text \<open>
  The claim as stated has the warning logged for every input without a body. The sender's
  name is read at line 50, before the body is tested and outside the \<open>try\<close>: when the
  sender is a non-empty value that is not an object (here a string), that line raises
  AttributeError, the handler ends with the exception and the warning is not logged.
\<close>

theorem extract_empty_body_ill_formed_sender:
  "dget [(''inquiryId'', PStr ''i1''), (''source'', PStr ''email''),
         (''body'', PStr ''''), (''sender'', PStr ''bob'')] ''body'' = PStr ''''
   \<and> fst (extract_handler empty_object_env
             [(''inquiryId'', PStr ''i1''), (''source'', PStr ''email''),
              (''body'', PStr ''''), (''sender'', PStr ''bob'')] (ctx_init demo_store))
       = Some (Exn ''AttributeError''
                 (quoted ''str'' @ '' object has no attribute '' @ quoted ''get''))
   \<and> logs (snd (extract_handler empty_object_env
             [(''inquiryId'', PStr ''i1''), (''source'', PStr ''email''),
              (''body'', PStr ''''), (''sender'', PStr ''bob'')] (ctx_init demo_store)))
       = [(Info, ''Starting extraction for {inquiry_id}'')]"
  by (simp add: run_defs empty_object_env_def)




text \<open>
  C5 (as amended). For an input with a well-formed sender and a non-empty body, when the
  completion service returns a text that parses to a JSON object of the shape the handler
  reads (\<open>brand\<close>, \<open>campaign\<close> and \<open>campaign.budget\<close> are objects when present,
  \<open>campaign.deliverables\<close> has a length when present), the handler returns normally, the
  record stored under the inquiry id has status "extracted", extractedData equal to the
  parsed object and extractedAt set to the current time; when nothing was stored before
  it is the stub \<open>{id: inquiryId}\<close> with these fields (and the input's sender, if any)
  added. Exactly one event is then emitted, on topic inquiry.extracted, with payload
  \<open>{inquiryId, source, threadKey, extracted, sender}\<close>, where extracted is that same parsed
  object and threadKey and sender fall back to the stored record's.
\<close>

theorem extract_success_persists_and_emits:
  assumes "sender_well_formed input_data" and "truthy (dget input_data ''body'')"
    and "completion_parsed env (extract_request (dget input_data ''body'')) (PDict ex)"
    and "deal_shape_ok ex"
  shows "fst (extract_handler env input_data c) = None
       \<and> (\<exists>r. state_get ''inquiries'' (dget input_data ''inquiryId'')
                 (snd (extract_handler env input_data c)) = Some r
             \<and> map_of r ''status'' = Some (PStr ''extracted'')
             \<and> map_of r ''extractedData'' = Some (PDict ex)
             \<and> map_of r ''extractedAt'' = Some (PStr (now_iso env))
             \<and> (state_get ''inquiries'' (dget input_data ''inquiryId'') c = None \<longrightarrow>
                  r = [(''id'', dget input_data ''inquiryId''), (''status'', PStr ''extracted''),
                       (''extractedData'', PDict ex), (''extractedAt'', PStr (now_iso env))]
                      @ (if truthy (dget input_data ''sender'')
                         then [(''sender'', dget input_data ''sender'')] else []))
             \<and> emitted (snd (extract_handler env input_data c)) =
                  emitted c @
                  [\<lparr>topic = ''inquiry.extracted'',
                    data = [(''inquiryId'', dget input_data ''inquiryId''),
                            (''source'', dget input_data ''source''),
                            (''threadKey'', py_or (dget input_data ''threadKey'') (dget r ''threadKey'')),
                            (''extracted'', PDict ex),
                            (''sender'', py_or (dget input_data ''sender'') (dget r ''sender''))]\<rparr>])"
proof -
  let ?i = "dget input_data ''inquiryId''"
  let ?r = "updated_inquiry env (PDict ex) (dget input_data ''sender'') (load_or_stub ?i c)"
  note s = extract_handler_success [OF assms, of c]
  have g: "state_get ''inquiries'' ?i (snd (extract_handler env input_data c)) = Some ?r"
    by (simp add: state_get_def s(2))
  have stub: "state_get ''inquiries'' ?i c = None \<longrightarrow>
       ?r = [(''id'', ?i), (''status'', PStr ''extracted''),
             (''extractedData'', PDict ex), (''extractedAt'', PStr (now_iso env))]
            @ (if truthy (dget input_data ''sender'') then [(''sender'', dget input_data ''sender'')] else [])"
    by (simp add: load_or_stub_def updated_inquiry_def Let_def setitem_def dget_def)
  have ev: "emitted (snd (extract_handler env input_data c)) =
                  emitted c @
                  [\<lparr>topic = ''inquiry.extracted'',
                    data = [(''inquiryId'', ?i),
                            (''source'', dget input_data ''source''),
                            (''threadKey'', py_or (dget input_data ''threadKey'') (dget ?r ''threadKey'')),
                            (''extracted'', PDict ex),
                            (''sender'', py_or (dget input_data ''sender'') (dget ?r ''sender''))]\<rparr>]"
    by (simp add: s(3) extracted_event_def)
  have "\<exists>r. state_get ''inquiries'' ?i (snd (extract_handler env input_data c)) = Some r
             \<and> map_of r ''status'' = Some (PStr ''extracted'')
             \<and> map_of r ''extractedData'' = Some (PDict ex)
             \<and> map_of r ''extractedAt'' = Some (PStr (now_iso env))
             \<and> (state_get ''inquiries'' ?i c = None \<longrightarrow>
                  r = [(''id'', ?i), (''status'', PStr ''extracted''),
                       (''extractedData'', PDict ex), (''extractedAt'', PStr (now_iso env))]
                      @ (if truthy (dget input_data ''sender'')
                         then [(''sender'', dget input_data ''sender'')] else []))
             \<and> emitted (snd (extract_handler env input_data c)) =
                  emitted c @
                  [\<lparr>topic = ''inquiry.extracted'',
                    data = [(''inquiryId'', ?i),
                            (''source'', dget input_data ''source''),
                            (''threadKey'', py_or (dget input_data ''threadKey'') (dget r ''threadKey'')),
                            (''extracted'', PDict ex),
                            (''sender'', py_or (dget input_data ''sender'') (dget r ''sender''))]\<rparr>]"
    by (intro exI [of _ ?r] conjI g stub ev) (simp_all add: map_of_updated_inquiry)
  with s(1) show ?thesis by simp
qed


theorem extract_success_persists_and_emits_witness:
  "sender_well_formed inquiry_input \<and> truthy (dget inquiry_input ''body'')
   \<and> completion_parsed deal_env (extract_request (dget inquiry_input ''body'')) (PDict deal_parsed)
   \<and> deal_shape_ok deal_parsed
   \<and> state_get ''inquiries'' (PStr ''i1'') (snd (extract_handler deal_env inquiry_input (ctx_init demo_store)))
       = Some [(''id'', PStr ''i1''), (''status'', PStr ''extracted''), (''threadKey'', PStr ''t1''),
               (''extractedData'', PDict deal_parsed), (''extractedAt'', PStr ''2025-01-01T10:00:00'')]
   \<and> emitted (snd (extract_handler deal_env inquiry_input (ctx_init demo_store)))
       = [\<lparr>topic = ''inquiry.extracted'',
           data = [(''inquiryId'', PStr ''i1''), (''source'', PStr ''email''),
                   (''threadKey'', PStr ''t1''), (''extracted'', PDict deal_parsed),
                   (''sender'', PNone)]\<rparr>]"
  using extract_success_persists_and_emits [of inquiry_input deal_env deal_parsed "ctx_init demo_store"]
  by (simp add: run_defs sender_well_formed_def completion_parsed_def deal_env_def
        deal_shape_ok_def obj_or_absent_def sized_or_absent_def deal_parsed_def)

text \<open>
  The claim as stated covers every well-formed JSON answer. An object whose \<open>brand\<close> is
  null parses, but the log line that reads \<open>brand.contactPerson\<close> raises AttributeError,
  which the outer handler turns into extraction_failed; nothing is emitted.
\<close>

theorem extract_well_formed_json_can_fail:
  "completion_parsed (fixed_env (Inr brand_null_json) (Inr (PDict [(''brand'', PNone)])))
     (extract_request (dget inquiry_input ''body'')) (PDict [(''brand'', PNone)])
   \<and> state_get ''inquiries'' (PStr ''i1'')
        (snd (extract_handler (fixed_env (Inr brand_null_json) (Inr (PDict [(''brand'', PNone)])))
                inquiry_input (ctx_init demo_store)))
       = Some [(''id'', PStr ''i1''), (''status'', PStr ''extraction_failed''),
               (''threadKey'', PStr ''t1''),
               (''error'', PStr (quoted ''NoneType'' @ '' object has no attribute '' @ quoted ''get''))]
   \<and> emitted (snd (extract_handler (fixed_env (Inr brand_null_json) (Inr (PDict [(''brand'', PNone)])))
                inquiry_input (ctx_init demo_store))) = []"
  by (simp add: run_defs completion_parsed_def)

text \<open>
  C9 (as amended). On the success path (well-formed sender, non-empty body, an answer that
  parses to an object of the shape the handler reads), every field of the stored record
  other than status, extractedData, extractedAt and sender is in the record written back
  with its value. When the stored record is non-empty the record written back has exactly
  its fields outside these four (threadKey among them), and its sender is the stored one
  whenever the stored sender is non-empty or the input carries none; a stored sender that
  is null or empty counts as missing and is replaced by the input's.
\<close>

theorem extract_success_frame:
  assumes "sender_well_formed input_data" and "truthy (dget input_data ''body'')"
    and "completion_parsed env (extract_request (dget input_data ''body'')) (PDict ex)"
    and "deal_shape_ok ex"
    and "state_get ''inquiries'' (dget input_data ''inquiryId'') c = Some old"
  shows "\<exists>r. state_get ''inquiries'' (dget input_data ''inquiryId'')
               (snd (extract_handler env input_data c)) = Some r
           \<and> (\<forall>k v. k \<notin> {''status'', ''extractedData'', ''extractedAt'', ''sender''} \<longrightarrow>
                 map_of old k = Some v \<longrightarrow> map_of r k = Some v)
           \<and> (old \<noteq> [] \<longrightarrow>
                (\<forall>k. k \<notin> {''status'', ''extractedData'', ''extractedAt'', ''sender''} \<longrightarrow>
                   map_of r k = map_of old k)
              \<and> map_of r ''threadKey'' = map_of old ''threadKey''
              \<and> (truthy (dget old ''sender'') \<longrightarrow> map_of r ''sender'' = map_of old ''sender'')
              \<and> (\<not> truthy (dget input_data ''sender'') \<longrightarrow>
                   map_of r ''sender'' = map_of old ''sender'')
              \<and> (\<not> truthy (dget old ''sender'') \<longrightarrow> truthy (dget input_data ''sender'') \<longrightarrow>
                   map_of r ''sender'' = Some (dget input_data ''sender'')))"
proof -
  let ?i = "dget input_data ''inquiryId''"
  let ?r = "updated_inquiry env (PDict ex) (dget input_data ''sender'') (load_or_stub ?i c)"
  have g: "state_get ''inquiries'' ?i (snd (extract_handler env input_data c)) = Some ?r"
    by (simp add: state_get_def extract_handler_success(2) [OF assms(1-4)])
  have keep: "\<forall>k v. k \<notin> {''status'', ''extractedData'', ''extractedAt'', ''sender''} \<longrightarrow>
                 map_of old k = Some v \<longrightarrow> map_of ?r k = Some v"
    using assms(5) by (auto simp: map_of_updated_inquiry load_or_stub_def)
  have ne: "old \<noteq> [] \<longrightarrow>
                (\<forall>k. k \<notin> {''status'', ''extractedData'', ''extractedAt'', ''sender''} \<longrightarrow>
                   map_of ?r k = map_of old k)
              \<and> map_of ?r ''threadKey'' = map_of old ''threadKey''
              \<and> (truthy (dget old ''sender'') \<longrightarrow> map_of ?r ''sender'' = map_of old ''sender'')
              \<and> (\<not> truthy (dget input_data ''sender'') \<longrightarrow>
                   map_of ?r ''sender'' = map_of old ''sender'')
              \<and> (\<not> truthy (dget old ''sender'') \<longrightarrow> truthy (dget input_data ''sender'') \<longrightarrow>
                   map_of ?r ''sender'' = Some (dget input_data ''sender''))"
    using assms(5) by (simp add: map_of_updated_inquiry load_or_stub_def)
  show ?thesis
    by (intro exI [of _ ?r] conjI g keep ne)
qed


theorem extract_success_frame_witness:
  "sender_well_formed (inquiry_input_from (PDict [(''name'', PStr ''Ravi'')]))
   \<and> truthy (dget (inquiry_input_from (PDict [(''name'', PStr ''Ravi'')])) ''body'')
   \<and> completion_parsed empty_object_env
        (extract_request (dget (inquiry_input_from (PDict [(''name'', PStr ''Ravi'')])) ''body'')) (PDict [])
   \<and> deal_shape_ok []
   \<and> state_get ''inquiries'' (PStr ''i1'')
        (snd (extract_handler empty_object_env (inquiry_input_from (PDict [(''name'', PStr ''Ravi'')]))
               (ctx_init (store_with_sender (PDict [(''name'', PStr ''Asha'')])))))
      = Some [(''id'', PStr ''i1''), (''status'', PStr ''extracted''), (''threadKey'', PStr ''t1''),
              (''sender'', PDict [(''name'', PStr ''Asha'')]),
              (''extractedData'', PDict []), (''extractedAt'', PStr ''2025-01-01T10:00:00'')]"
  using extract_success_frame [of "inquiry_input_from (PDict [(''name'', PStr ''Ravi'')])"
          empty_object_env "[]" "ctx_init (store_with_sender (PDict [(''name'', PStr ''Asha'')]))"
          "[(''id'', PStr ''i1''), (''status'', PStr ''received''), (''threadKey'', PStr ''t1''),
            (''sender'', PDict [(''name'', PStr ''Asha'')])]"]
  by (simp add: run_defs empty_object_env_def sender_well_formed_def completion_parsed_def
        deal_shape_ok_def obj_or_absent_def store_with_sender_def inquiry_input_from_def)

text \<open>
  The claim as stated protects every sender present in state. A stored record whose
  \<open>sender\<close> field is present but empty (the default ClassifyMessage forwards when the
  message has no enriched sender) has that field replaced by the input's sender.
\<close>

theorem empty_stored_sender_is_replaced:
  "map_of [(''id'', PStr ''i1''), (''status'', PStr ''received''), (''threadKey'', PStr ''t1''),
           (''sender'', PDict [])] ''sender'' = Some (PDict [])
   \<and> state_get ''inquiries'' (PStr ''i1'') (ctx_init (store_with_sender (PDict [])))
      = Some [(''id'', PStr ''i1''), (''status'', PStr ''received''), (''threadKey'', PStr ''t1''),
              (''sender'', PDict [])]
   \<and> state_get ''inquiries'' (PStr ''i1'')
        (snd (extract_handler empty_object_env (inquiry_input_from (PDict [(''name'', PStr ''Ravi'')]))
               (ctx_init (store_with_sender (PDict [])))))
      = Some [(''id'', PStr ''i1''), (''status'', PStr ''extracted''), (''threadKey'', PStr ''t1''),
              (''sender'', PDict [(''name'', PStr ''Ravi'')]),
              (''extractedData'', PDict []), (''extractedAt'', PStr ''2025-01-01T10:00:00'')]"
  by (simp add: run_defs empty_object_env_def store_with_sender_def inquiry_input_from_def)


section \<open>ExtractInquiry: the status over a sequence of invocations\<close>

lemma extract_step_status:
  "store (snd (extract_handler env input_data (ctx_init st))) key = st key
   \<or> terminal_status (store (snd (extract_handler env input_data (ctx_init st))) key)"
  using extract_handler_cases [of env input_data "ctx_init st"]
  by (auto simp: terminal_status_def failed_record_def map_of_setitem map_of_updated_inquiry
        ctx_init_def)

lemma run_extract_status:
  "run_extract invs st key = st key \<or> terminal_status (run_extract invs st key)"
proof (induction invs arbitrary: st)
  case Nil
  show ?case by simp
next
  case (Cons a invs)
  obtain env input_data where a: "a = (env, input_data)" by (cases a)
  let ?st = "store (snd (extract_handler env input_data (ctx_init st)))"
  from Cons.IH [of ?st] extract_step_status [of env input_data st key]
  show ?case by (auto simp: a)
qed

text \<open>
  C7 (as amended). Over any sequence of ExtractInquiry invocations, whatever their inputs
  and whatever the completion service does, every store entry is either untouched or holds
  a record whose status is "extracted" or "extraction_failed"; an entry that had one of
  these two statuses keeps one of them; and no entry that changed has status "received".
  The two statuses are not each final: a later invocation for the same inquiry may replace
  one by the other.
\<close>

theorem status_never_leaves_terminal_set:
  "(run_extract invs st key = st key \<or> terminal_status (run_extract invs st key))
   \<and> (terminal_status (st key) \<longrightarrow> terminal_status (run_extract invs st key))
   \<and> (run_extract invs st key \<noteq> st key \<longrightarrow>
        (\<exists>r. run_extract invs st key = Some r \<and> map_of r ''status'' \<noteq> Some (PStr ''received'')))"
  using run_extract_status [of invs st key]
  by (auto simp: terminal_status_def split: option.splits)


theorem status_never_leaves_terminal_set_witness:
  "run_extract [(empty_object_env, inquiry_input)] demo_store (''inquiries'', PStr ''i1'')
      \<noteq> demo_store (''inquiries'', PStr ''i1'')
   \<and> terminal_status (run_extract [(empty_object_env, inquiry_input)] demo_store (''inquiries'', PStr ''i1''))
   \<and> terminal_status (run_extract [(unreachable_env, inquiry_input)]
        (run_extract [(empty_object_env, inquiry_input)] demo_store) (''inquiries'', PStr ''i1''))"
  using status_never_leaves_terminal_set [of "[(empty_object_env, inquiry_input)]" demo_store
          "(''inquiries'', PStr ''i1'')"]
        status_never_leaves_terminal_set [of "[(unreachable_env, inquiry_input)]"
          "run_extract [(empty_object_env, inquiry_input)] demo_store" "(''inquiries'', PStr ''i1'')"]
  by (simp add: run_defs empty_object_env_def unreachable_env_def terminal_status_def)

text \<open>
  The claim as stated has each of the two statuses final. A first invocation that succeeds
  leaves inquiry i1 "extracted"; a second one for the same inquiry whose completion call
  fails overwrites that status with "extraction_failed".
\<close>

theorem extracted_can_become_failed:
  "run_extract [(empty_object_env, inquiry_input)] demo_store (''inquiries'', PStr ''i1'')
     = Some [(''id'', PStr ''i1''), (''status'', PStr ''extracted''), (''threadKey'', PStr ''t1''),
             (''extractedData'', PDict []), (''extractedAt'', PStr ''2025-01-01T10:00:00'')]
   \<and> run_extract [(empty_object_env, inquiry_input), (unreachable_env, inquiry_input)] demo_store
        (''inquiries'', PStr ''i1'')
     = Some [(''id'', PStr ''i1''), (''status'', PStr ''extraction_failed''), (''threadKey'', PStr ''t1''),
             (''extractedData'', PDict []), (''extractedAt'', PStr ''2025-01-01T10:00:00''),
             (''error'', PStr ''Connection error.'')]"
  by (simp add: run_defs empty_object_env_def unreachable_env_def)


section \<open>ClassifyMessage: effects of each part\<close>

lemma classify_log_sel [simp]:
  "store (log_classify_start c) = store c" "emitted (log_classify_start c) = emitted c"
  "requests (log_classify_start c) = requests c"
  "store (log_classify_parse_error c) = store c" "emitted (log_classify_parse_error c) = emitted c"
  "requests (log_classify_parse_error c) = requests c"
  "store (log_classification_failed c) = store c" "emitted (log_classification_failed c) = emitted c"
  "requests (log_classification_failed c) = requests c"
  by (simp_all add: log_classify_start_def log_classify_parse_error_def log_classification_failed_def)

lemma py_get_default_dict [simp]:
  "py_get_default (PDict d) k dflt = Inr (dget_default d k dflt)"
  by (simp add: py_get_default_def)

lemma py_get_default_Inr: "py_get_default v k dflt = Inr x \<Longrightarrow> \<exists>d. v = PDict d"
  by (cases v) (simp_all add: py_get_default_def)

lemma classify_parsed_emitted:
  assumes "classify_parsed env input_data mid src body subj sender cls c = (x, c')"
  shows "store c' = store c \<and> requests c' = requests c \<and>
         (emitted c' = emitted c
          \<or> (x = None \<and> (\<exists>ib conf reas kw. emitted c' = emitted c @
                [classified_event env input_data mid src body subj sender ib conf reas kw])))"
proof (cases "py_get_default cls ''isBrandInquiry'' (PBool False)")
  case (Inl e)
  with assms have "c' = c" by (simp add: classify_parsed_def andthen_def)
  then show ?thesis by simp
next
  case (Inr ib)
  then obtain d where d: "cls = PDict d" using py_get_default_Inr by blast
  let ?conf = "dget_default d ''confidence'' (PFloat 0)"
  let ?kw = "dget_default d ''keywords'' (PList [])"
  let ?c1 = "log Info ''Classification Result: {...}'' c"
  show ?thesis
  proof (cases "fmt_percent ?conf")
    case (Inl e)
    with assms d have "c' = ?c1"
      by (simp add: classify_parsed_def andthen_def eval_log_def)
    then show ?thesis by simp
  next
    case Inr2: (Inr u)
    let ?c2 = "log Info ''Reasoning: {reasoning}'' (log Info ''Confidence: {confidence:.2%}'' ?c1)"
    show ?thesis
    proof (cases "if truthy ?kw then py_join ?kw else Inr ()")
      case (Inl e)
      with assms d Inr2 have "c' = ?c2"
        by (simp add: classify_parsed_def andthen_def eval_log_def)
      then show ?thesis by simp
    next
      case Inr3: (Inr u')
      with assms d Inr2 have "x = None" and "c' = log Info ''Classification event emitted for {message_id}''
                (emit (classified_event env input_data mid src body subj sender
                         (dget_default d ''isBrandInquiry'' (PBool False)) ?conf
                         (dget_default d ''reasoning'' (PStr ''No reasoning provided'')) ?kw)
                   (log Info (rule80 CHR ''='') (log Info ''Keywords Found: {...}'' ?c2)))"
        by (simp_all add: classify_parsed_def andthen_def eval_log_def)
      then show ?thesis
        by (intro conjI disjI2 exI [of _ "dget_default d ''isBrandInquiry'' (PBool False)"]
              exI [of _ ?conf] exI [of _ "dget_default d ''reasoning'' (PStr ''No reasoning provided'')"]
              exI [of _ ?kw]) simp_all
    qed
  qed
qed

lemma classify_try_emitted:
  assumes "classify_try env input_data mid src body subj sender sender_name c = (x, c')"
  shows "store c' = store c \<and>
         (emitted c' = emitted c
          \<or> (x = None \<and> (\<exists>ib conf reas kw. emitted c' = emitted c @
                [classified_event env input_data mid src body subj sender ib conf reas kw])))"
proof (cases "groq_init env")
  case (Some e)
  with assms show ?thesis by (simp add: classify_try_def)
next
  case None
  show ?thesis
  proof (cases "create env (classify_request subj body sender_name)")
    case (Inl e)
    with None assms show ?thesis by (auto simp: classify_try_def Let_def)
  next
    case (Inr content)
    show ?thesis
    proof (cases "loads env content")
      case (Inl err)
      with None Inr assms have "x = None" and "c' = emit
          (classified_event env input_data mid src body subj sender (PBool False) (PFloat 0)
             (PStr (''Classification failed: '' @ err)) (PList []))
          (log_classify_parse_error (log Info (rule80 CHR ''-'')
             (log Info ''AI Classification Response: {classification_json}''
                (send (classify_request subj body sender_name) c))))"
        by (auto simp: classify_try_def Let_def)
      then show ?thesis
        by (intro conjI disjI2 exI [of _ "PBool False"] exI [of _ "PFloat 0"]
              exI [of _ "PStr (''Classification failed: '' @ err)"] exI [of _ "PList []"])
           simp_all
    next
      case Inr2: (Inr cls)
      with None Inr assms have "classify_parsed env input_data mid src body subj sender cls
          (log Info (rule80 CHR ''-'')
             (log Info ''AI Classification Response: {classification_json}''
                (send (classify_request subj body sender_name) c))) = (x, c')"
        by (simp add: classify_try_def Let_def)
      from classify_parsed_emitted [OF this] show ?thesis by simp
    qed
  qed
qed

lemma classify_handler_emitted:
  "emitted (snd (classify_handler env input_data c)) = emitted c
   \<or> (\<exists>ib conf reas kw. emitted (snd (classify_handler env input_data c)) = emitted c @
        [classified_event env input_data (dget input_data ''messageId'') (dget input_data ''source'')
           (dget input_data ''html'') (dget_default input_data ''subject'' (PStr ''''))
           (dget_default input_data ''sender'' (PDict [])) ib conf reas kw])"
proof (cases "py_get (dget_default input_data ''sender'' (PDict [])) ''name''")
  case (Inl e)
  then show ?thesis by (simp add: classify_handler_def Let_def andthen_def)
next
  case (Inr sender_name)
  show ?thesis
  proof (cases "py_slice100 (dget input_data ''html'')")
    case (Inl e)
    with Inr show ?thesis by (simp add: classify_handler_def Let_def andthen_def eval_log_def)
  next
    case Inr2: (Inr preview)
    show ?thesis
    proof (cases "truthy (dget input_data ''html'')")
      case False
      with Inr Inr2 show ?thesis
        by (simp add: classify_handler_def Let_def andthen_def eval_log_def)
    next
      case True
      let ?c1 = "log Info ''Body Preview: {body[:100]}...'' (log_classify_start c)"
      obtain x c2 where t: "classify_try env input_data (dget input_data ''messageId'')
          (dget input_data ''source'') (dget input_data ''html'')
          (dget_default input_data ''subject'' (PStr ''''))
          (dget_default input_data ''sender'' (PDict [])) sender_name ?c1 = (x, c2)"
        by (cases "classify_try env input_data (dget input_data ''messageId'')
          (dget input_data ''source'') (dget input_data ''html'')
          (dget_default input_data ''subject'' (PStr ''''))
          (dget_default input_data ''sender'' (PDict [])) sender_name ?c1")
      have h: "snd (classify_handler env input_data c) =
          (case x of None \<Rightarrow> c2
           | Some e \<Rightarrow> emit (classified_event env input_data (dget input_data ''messageId'')
                (dget input_data ''source'') (dget input_data ''html'')
                (dget_default input_data ''subject'' (PStr ''''))
                (dget_default input_data ''sender'' (PDict [])) (PBool False) (PFloat 0)
                (PStr (''Classification error: '' @ exn_msg e)) (PList []))
               (log_classification_failed c2))"
        using Inr Inr2 True t
        by (simp add: classify_handler_def Let_def andthen_def eval_log_def split: option.splits)
      show ?thesis
      proof (cases x)
        case None
        with classify_try_emitted [OF t] h show ?thesis by auto
      next
        case (Some e)
        with classify_try_emitted [OF t] have "emitted c2 = emitted c" by auto
        with h Some show ?thesis
          by (intro disjI2 exI [of _ "PBool False"] exI [of _ "PFloat 0"]
              exI [of _ "PStr (''Classification error: '' @ exn_msg e)"] exI [of _ "PList []"])
             simp
      qed
    qed
  qed
qed

lemma base_emit_data_metadata:
  "map_of (base_emit_data env input_data mid src body subj sender ib conf reas kw) ''inReplyTo'' = None"
  "map_of (base_emit_data env input_data mid src body subj sender ib conf reas kw) ''references'' = None"
  "map_of (base_emit_data env input_data mid src body subj sender ib conf reas kw) ''emailHeaders'' = None"
  by (simp_all add: base_emit_data_def)

lemma email_passthrough_metadata:
  assumes "map_of d ''inReplyTo'' = None" "map_of d ''references'' = None"
    "map_of d ''emailHeaders'' = None"
    and "k = ''inReplyTo'' \<or> k = ''references'' \<or> k = ''emailHeaders''"
  shows "map_of (email_passthrough input_data src d) k =
     (if src = PStr ''email'' \<and> truthy (dget input_data k) then Some (dget input_data k) else None)"
  using assms
  by (auto simp: email_passthrough_def Let_def map_of_setitem)

lemma classified_event_metadata:
  assumes "k \<in> {''inReplyTo'', ''references'', ''emailHeaders''}"
  shows "map_of (data (classified_event env input_data mid src body subj sender ib conf reas kw)) k =
     (if src = PStr ''email'' \<and> truthy (dget input_data k) then Some (dget input_data k) else None)"
  unfolding classified_event_def event.simps
  by (rule email_passthrough_metadata) (use assms in \<open>simp_all add: base_emit_data_metadata\<close>)

text \<open>
  Whatever the other fields and whatever the completion service would do, an input without
  an \<open>html\<close> field makes the handler end with an exception before the \<open>try\<close>: the
  \<open>body\<close> field is never looked at.
\<close>

lemma classify_without_html:
  assumes "map_of input_data ''html'' = None"
  shows "(\<exists>e. fst (classify_handler env input_data c) = Some e)
       \<and> emitted (snd (classify_handler env input_data c)) = emitted c
       \<and> requests (snd (classify_handler env input_data c)) = requests c"
proof (cases "py_get (dget_default input_data ''sender'' (PDict [])) ''name''")
  case (Inl e)
  then show ?thesis by (simp add: classify_handler_def Let_def andthen_def)
next
  case (Inr sender_name)
  have "dget input_data ''html'' = PNone" using assms by (simp add: dget_def)
  with Inr show ?thesis
    by (simp add: classify_handler_def Let_def andthen_def eval_log_def py_slice100_def)
qed

lemmas classify_run_defs =
  classify_handler_def classify_try_def classify_parsed_def classified_event_def
  email_passthrough_def base_emit_data_def eval_log_def andthen_def
  py_get_def py_get_default_def py_slice100_def fmt_percent_def py_join_def
  dget_def dget_default_def setitem_def fixed_env_def quoted_def Let_def


section \<open>ClassifyMessage: the claims\<close>

text \<open>
  C4 (as amended). In every message.classified event the handler emits, on the success,
  parse-failure and exception paths alike, each of inReplyTo, references and emailHeaders
  is in the payload exactly when the input's source is "email" and the input's value for
  the field is non-empty (truthy), and then with the input's value unchanged. A field that
  is present on the input with an empty value (an empty string, list or object, or null)
  is left out, and for any other source all three are left out.
\<close>

theorem email_metadata_passthrough:
  assumes "ev \<in> set (emitted (snd (classify_handler env input_data (ctx_init st))))"
    and "k \<in> {''inReplyTo'', ''references'', ''emailHeaders''}"
  shows "map_of (data ev) k =
     (if dget input_data ''source'' = PStr ''email'' \<and> truthy (dget input_data k)
      then Some (dget input_data k) else None)"
  using classify_handler_emitted [of env input_data "ctx_init st"] assms
    classified_event_metadata [OF assms(2), of env input_data]
  by auto


theorem email_metadata_passthrough_witness:
  "map (\<lambda>p. map_of p ''inReplyTo'') (classified_payloads classifier_env (reply_input ''email''))
     = [Some (PStr ''<msg1>'')]
   \<and> map (\<lambda>p. map_of p ''inReplyTo'') (classified_payloads garbled_env (reply_input ''email''))
     = [Some (PStr ''<msg1>'')]
   \<and> map (\<lambda>p. map_of p ''inReplyTo'') (classified_payloads unreachable_env (reply_input ''email''))
     = [Some (PStr ''<msg1>'')]
   \<and> map (\<lambda>p. map_of p ''inReplyTo'') (classified_payloads classifier_env (reply_input ''facebook''))
     = [None]"
  using email_metadata_passthrough [of
          "hd (emitted (snd (classify_handler classifier_env (reply_input ''email'') (ctx_init Map.empty))))"
          classifier_env "reply_input ''email''" Map.empty "''inReplyTo''"]
        email_metadata_passthrough [of
          "hd (emitted (snd (classify_handler garbled_env (reply_input ''email'') (ctx_init Map.empty))))"
          garbled_env "reply_input ''email''" Map.empty "''inReplyTo''"]
        email_metadata_passthrough [of
          "hd (emitted (snd (classify_handler unreachable_env (reply_input ''email'') (ctx_init Map.empty))))"
          unreachable_env "reply_input ''email''" Map.empty "''inReplyTo''"]
        email_metadata_passthrough [of
          "hd (emitted (snd (classify_handler classifier_env (reply_input ''facebook'') (ctx_init Map.empty))))"
          classifier_env "reply_input ''facebook''" Map.empty "''inReplyTo''"]
  by (simp add: classify_run_defs classified_payloads_def classifier_env_def garbled_env_def
        unreachable_env_def reply_input_def classification_parsed_def)

text \<open>
  The claim as stated forwards every field that is present on an email input. The first
  email of a thread, whose inReplyTo is the empty string and whose references is the empty
  list, is classified and forwarded without either field.
\<close>

theorem empty_metadata_is_dropped:
  "map_of first_email_input ''source'' = Some (PStr ''email'')
   \<and> map_of first_email_input ''inReplyTo'' = Some (PStr '''')
   \<and> map_of first_email_input ''references'' = Some (PList [])
   \<and> map (\<lambda>p. (map_of p ''inReplyTo'', map_of p ''references''))
        (classified_payloads classifier_env first_email_input) = [(None, None)]"
  by (simp add: classify_run_defs classified_payloads_def classifier_env_def
        first_email_input_def classification_parsed_def)

text \<open>
  C1. The handler takes the message text from the input's \<open>html\<close> field (line 43), not from
  \<open>body\<close>, the field its schema requires and its docstring names. On an input with
  messageId, source and body and a completion service that returns a well-formed JSON
  object, the text is None, the body preview at line 57 raises TypeError outside the
  \<open>try\<close>, and the handler ends with that exception: no event is emitted and the completion
  service is never called.
\<close>

theorem classify_reads_html_not_body:
  "fst (classify_handler classifier_env message_input (ctx_init Map.empty))
     = Some (Exn ''TypeError'' (quoted ''NoneType'' @ '' object is not subscriptable''))
   \<and> emitted (snd (classify_handler classifier_env message_input (ctx_init Map.empty))) = []
   \<and> requests (snd (classify_handler classifier_env message_input (ctx_init Map.empty))) = []"
  by (simp add: classify_run_defs classifier_env_def message_input_def)

text \<open>
  C2. For the same reason, on an input with a non-empty body the degraded default is not
  emitted either: whether the completion call would raise or would answer with a text that
  is not JSON, the handler has already ended with TypeError at line 57, with no event.
\<close>

theorem classify_failure_without_html_emits_nothing:
  "fst (classify_handler unreachable_env message_input (ctx_init Map.empty))
     = Some (Exn ''TypeError'' (quoted ''NoneType'' @ '' object is not subscriptable''))
   \<and> emitted (snd (classify_handler unreachable_env message_input (ctx_init Map.empty))) = []
   \<and> fst (classify_handler garbled_env message_input (ctx_init Map.empty))
     = Some (Exn ''TypeError'' (quoted ''NoneType'' @ '' object is not subscriptable''))
   \<and> emitted (snd (classify_handler garbled_env message_input (ctx_init Map.empty))) = []"
  by (simp add: classify_run_defs unreachable_env_def garbled_env_def message_input_def)

text \<open>
  C3. The guard at line 59 tests the \<open>html\<close> text, so an input whose body is empty but
  which carries an \<open>html\<close> field is sent to the completion service and one
  message.classified event is emitted, with the \<open>html\<close> text as its body. An input with
  neither field does emit nothing, but by ending with TypeError at line 57, before the
  guard: the warning is not logged.
\<close>

theorem classify_empty_body_still_emits:
  "dget empty_body_input ''body'' = PStr ''''
   \<and> fst (classify_handler classifier_env empty_body_input (ctx_init Map.empty)) = None
   \<and> map (\<lambda>e. (topic e, dget (data e) ''body'', dget (data e) ''isBrandInquiry''))
        (emitted (snd (classify_handler classifier_env empty_body_input (ctx_init Map.empty))))
     = [(''message.classified'', PStr ''<p>Hi</p>'', PBool True)]
   \<and> length (requests (snd (classify_handler classifier_env empty_body_input (ctx_init Map.empty)))) = 1
   \<and> fst (classify_handler classifier_env [(''messageId'', PStr ''m5''), (''source'', PStr ''facebook'')]
           (ctx_init Map.empty))
     = Some (Exn ''TypeError'' (quoted ''NoneType'' @ '' object is not subscriptable''))
   \<and> (Warn, ''No message body for {message_id}'') \<notin> set (logs (snd
         (classify_handler classifier_env [(''messageId'', PStr ''m5''), (''source'', PStr ''facebook'')]
           (ctx_init Map.empty))))"
  by (simp add: classify_run_defs classifier_env_def empty_body_input_def classification_parsed_def
        log_classify_start_def)


end
